theory Spec2Isabelle
  imports Main "HOL-Library.Sublist"
begin

section \<open>Strings\<close>

text \<open>
  A Python \<open>str\<close> is a sequence of code points. The user's text is modelled as a
  \<open>string\<close>, whose characters are the code points U+0000 to U+00FF; on this range
  \<open>str.lower()\<close> maps every character to one character, and \<open>str.isspace()\<close> is a
  fixed set of twelve characters. Keywords, labels and timestamps are ASCII and are
  \<open>string\<close>s too. The bot's replies hold code points above U+00FF (emoji, typographic
  quotes and dashes); text that may hold them is a list of code points, \<open>ustr\<close>.
\<close>

type_synonym ustr = "nat list"

definition cps :: "string \<Rightarrow> ustr" where
  "cps s = map of_char s"

text \<open>
  \<open>c.lower()\<close> for a code point below 256: A to Z, and U+00C0 to U+00DE except the
  multiplication sign U+00D7, move up by 32; every other character is unchanged.
\<close>

definition lower_char :: "char \<Rightarrow> char" where
  "lower_char c =
     (let n = (of_char c :: nat) in
      if (65 \<le> n \<and> n \<le> 90) \<or> (192 \<le> n \<and> n \<le> 222 \<and> n \<noteq> 215)
      then char_of (n + 32) else c)"

definition lower :: "string \<Rightarrow> string" where
  "lower s = map lower_char s"

text \<open>\<open>c.isspace()\<close> for a code point below 256.\<close>

definition isspace :: "char \<Rightarrow> bool" where
  "isspace c =
     (let n = (of_char c :: nat) in
      (9 \<le> n \<and> n \<le> 13) \<or> (28 \<le> n \<and> n \<le> 32) \<or> n = 133 \<or> n = 160)"

text \<open>\<open>s.strip()\<close>: leading and trailing whitespace removed.\<close>

definition strip :: "string \<Rightarrow> string" where
  "strip s = rev (dropWhile isspace (rev (dropWhile isspace s)))"

text \<open>
  \<open>w in text\<close> on strings: \<open>w\<close> occurs in \<open>text\<close> as a contiguous run of characters,
  searched from the left, one start position after the other.
\<close>

fun str_in :: "string \<Rightarrow> string \<Rightarrow> bool" where
  "str_in w [] = (w = [])"
| "str_in w (c # cs) = (prefix w (c # cs) \<or> str_in w cs)"

text \<open>\<open>any(w in text for w in words)\<close>: the words are tried in list order.\<close>

fun any_in :: "string list \<Rightarrow> string \<Rightarrow> bool" where
  "any_in [] text = False"
| "any_in (w # ws) text = (str_in w text \<or> any_in ws text)"

section \<open>Emotion detection\<close>

definition happy_words :: "string list" where
  "happy_words = [''happy'', ''great'', ''good'', ''excited'', ''joy'', ''awesome'']"

definition sad_words :: "string list" where
  "sad_words = [''sad'', ''unhappy'', ''down'', ''depressed'', ''cry'', ''hurt'']"

definition anxious_words :: "string list" where
  "anxious_words = [''anxious'', ''worried'', ''scared'', ''nervous'', ''panic'']"

definition angry_words :: "string list" where
  "angry_words = [''angry'', ''mad'', ''frustrated'', ''annoyed'']"

definition hopeless_words :: "string list" where
  "hopeless_words = [''hopeless'', ''tired of life'', ''give up'', ''can't go on'',
                     ''suicide'', ''kill myself'', ''end my life'', ''die'']"

text \<open>
  \<open>detect_emotion(text)\<close>. The argument is a string or \<open>None\<close>; \<open>text or ""\<close> turns
  \<open>None\<close> (and the empty string) into the empty string.
\<close>

definition detect_emotion :: "string option \<Rightarrow> string" where
  "detect_emotion text0 =
     (let text = lower (case text0 of None \<Rightarrow> [] | Some s \<Rightarrow> s) in
      if any_in happy_words text then ''happy''
      else if any_in sad_words text then ''sad''
      else if any_in anxious_words text then ''anxious''
      else if any_in angry_words text then ''angry''
      else if any_in hopeless_words text then ''crisis''
      else ''neutral'')"

section \<open>The chat handler\<close>

record chat_row =
  chat_user_id :: nat
  sender :: string
  chat_text :: ustr
  chat_time :: string

record alert =
  alert_user_id :: nat
  risk :: string
  message :: string
  alert_time :: string

text \<open>
  The two tables the handler writes. Rows are kept in insertion order, which is the
  order of their auto-incremented ids.
\<close>

record db =
  chats :: "chat_row list"
  alerts :: "alert list"

definition reply_help :: ustr where
  "reply_help = 0x1F91D # cps '' Of course, I'm here to help you. What''
     @ 0x2019 # cps ''s worrying you the most right now?''"

definition reply_not_okay :: ustr where
  "reply_not_okay = 0x1F49B # cps '' I'm really sorry you're feeling this way. You''
     @ 0x2019 # cps ''re not alone '' @ 0x2014 # cps '' tell me more.''"

definition reply_alone :: ustr where
  "reply_alone = 0x1F90D # cps '' Feeling alone can be heavy. I'm here with you ''
     @ 0x2014 # cps '' you don'' @ 0x2019 # cps ''t have to carry this alone.''"

definition reply_crisis :: ustr where
  "reply_crisis = 0x1F6A8 # cps '' I'' @ 0x2019
     # cps ''m very concerned about your safety. If you feel in danger or are thinking about harming yourself, ''
     @ cps ''please contact emergency services or a hotline. You deserve care and safety.''"

definition reply_default :: ustr where
  "reply_default = cps ''I'm here with you. Tell me more.''"

text \<open>The dictionary \<open>responses\<close>, in the order it is written.\<close>

definition responses :: "(string \<times> ustr) list" where
  "responses =
     [(''happy'', 0x1F60A # cps '' That's wonderful! What made you feel good today?''),
      (''sad'', 0x1F622 # cps '' I'm sorry you're feeling low. Want to talk about it?''),
      (''anxious'', 0x1F61F # cps '' Anxiety can be overwhelming. What's worrying you?''),
      (''angry'', 0x1F620 # cps '' Your feelings are valid. What triggered the anger?''),
      (''neutral'', 0x1F642 # cps '' I'm here with you. Tell me more when you're ready.'')]"

text \<open>\<open>responses.get(emotion, default)\<close>.\<close>

definition responses_get :: "string \<Rightarrow> ustr \<Rightarrow> ustr" where
  "responses_get emotion dflt =
     (case map_of responses emotion of None \<Rightarrow> dflt | Some r \<Rightarrow> r)"

text \<open>
  The reply selection of \<open>chat\<close> (the \<open>if\<close>/\<open>elif\<close> chain on the lowercased message
  \<open>t\<close> and the detected \<open>emotion\<close>): the bot's reply and the alert row to save, if any.
  Only the crisis branch builds an alert.
\<close>

definition respond :: "nat \<Rightarrow> string \<Rightarrow> string \<Rightarrow> string \<Rightarrow> ustr \<times> alert option" where
  "respond user_id ts user_msg emotion =
     (let t = lower user_msg in
      if str_in ''help'' t \<or> str_in ''assist'' t \<or> str_in ''support'' t
        then (reply_help, None)
      else if str_in ''not okay'' t \<or> str_in ''hurt'' t \<or> str_in ''pain'' t
        then (reply_not_okay, None)
      else if str_in ''alone'' t \<or> str_in ''lonely'' t
        then (reply_alone, None)
      else if emotion = ''crisis''
        then (reply_crisis,
              Some \<lparr>alert_user_id = user_id, risk = ''High'', message = user_msg,
                     alert_time = ts\<rparr>)
      else (responses_get emotion reply_default, None))"

text \<open>
  The POST branch of \<open>chat\<close> for the logged-in user \<open>user_id\<close>: \<open>raw\<close> is the form
  field \<open>message\<close>, \<open>ts\<close> and \<open>ts2\<close> are the two readings of the clock. An empty
  message after stripping changes nothing. Otherwise the user's row, the alert (in the
  crisis branch) and the bot's row are saved, in that order. The list \<open>chat_history\<close>
  handed to the page template repeats the saved chat rows and is left out.
\<close>

definition chat_post :: "nat \<Rightarrow> string \<Rightarrow> string \<Rightarrow> string \<Rightarrow> db \<Rightarrow> db" where
  "chat_post user_id ts ts2 raw d =
     (let user_msg = strip raw in
      if user_msg = [] then d
      else
        let d1 = d\<lparr>chats := chats d @
                   [\<lparr>chat_user_id = user_id, sender = ''user'', chat_text = cps user_msg,
                     chat_time = ts\<rparr>]\<rparr>;
            emotion = detect_emotion (Some user_msg);
            (bot_reply, al) = respond user_id ts user_msg emotion;
            d2 = (case al of None \<Rightarrow> d1 | Some a \<Rightarrow> d1\<lparr>alerts := alerts d1 @ [a]\<rparr>)
        in d2\<lparr>chats := chats d2 @
                 [\<lparr>chat_user_id = user_id, sender = ''bot'', chat_text = bot_reply,
                   chat_time = ts2\<rparr>]\<rparr>)"

section \<open>Substring search, lowercasing and the two cascades\<close>

text \<open>
  The left-to-right search finds \<open>w\<close> exactly when the text splits into a prefix,
  \<open>w\<close> and a suffix.
\<close>

lemma str_in_sublist: "str_in w t \<longleftrightarrow> sublist w t"
  by (induction t) (simp_all add: sublist_Cons_right)

lemma any_in_sublist: "any_in ws t \<longleftrightarrow> (\<exists>w\<in>set ws. sublist w t)"
  by (induction ws) (simp_all add: str_in_sublist)

text \<open>
  Lowercasing a lowercased text changes nothing, and lowercasing keeps occurrences,
  since it acts character by character.
\<close>

lemma lower_char_idem: "lower_char (lower_char c) = lower_char c"
  by (auto simp: lower_char_def Let_def)

lemma lower_idem: "lower (lower s) = lower s"
  by (simp add: lower_def lower_char_idem)

lemma sublist_lower: "sublist w t \<Longrightarrow> sublist (lower w) (lower t)"
proof -
  assume "sublist w t"
  then obtain ps ss where "t = ps @ w @ ss"
    by (auto simp: sublist_def)
  then have "lower t = lower ps @ lower w @ lower ss"
    by (simp add: lower_def)
  then show ?thesis
    by (auto simp: sublist_def)
qed

text \<open>
  Every result of \<open>detect_emotion\<close> is one of its six string literals.
\<close>

lemma detect_emotion_label:
  "detect_emotion x \<in> {''happy'', ''sad'', ''anxious'', ''angry'', ''crisis'', ''neutral''}"
  by (simp add: detect_emotion_def Let_def)

text \<open>
  The cascades of \<open>detect_emotion\<close> and of the reply selection, with occurrence
  stated as a splitting of the lowercased text.
\<close>

lemma detect_emotion_cascade:
  "detect_emotion (Some s) =
     (if \<exists>w\<in>set happy_words. sublist w (lower s) then ''happy''
      else if \<exists>w\<in>set sad_words. sublist w (lower s) then ''sad''
      else if \<exists>w\<in>set anxious_words. sublist w (lower s) then ''anxious''
      else if \<exists>w\<in>set angry_words. sublist w (lower s) then ''angry''
      else if \<exists>w\<in>set hopeless_words. sublist w (lower s) then ''crisis''
      else ''neutral'')"
  by (simp add: detect_emotion_def Let_def any_in_sublist)

lemma respond_cascade:
  "respond u ts m e =
     (if sublist ''help'' (lower m) \<or> sublist ''assist'' (lower m) \<or> sublist ''support'' (lower m)
        then (reply_help, None)
      else if sublist ''not okay'' (lower m) \<or> sublist ''hurt'' (lower m) \<or> sublist ''pain'' (lower m)
        then (reply_not_okay, None)
      else if sublist ''alone'' (lower m) \<or> sublist ''lonely'' (lower m)
        then (reply_alone, None)
      else if e = ''crisis''
        then (reply_crisis,
              Some \<lparr>alert_user_id = u, risk = ''High'', message = m, alert_time = ts\<rparr>)
      else (responses_get e reply_default, None))"
  by (simp add: respond_def Let_def str_in_sublist)

text \<open>
  What one call of the handler does to the alert table.
\<close>

lemma chat_post_alerts:
  "alerts (chat_post u ts ts2 raw d) =
     (if strip raw = [] then alerts d
      else alerts d @
        (case snd (respond u ts (strip raw) (detect_emotion (Some (strip raw)))) of
           None \<Rightarrow> [] | Some a \<Rightarrow> [a]))"
  by (simp add: chat_post_def Let_def split: prod.splits option.splits)

section \<open>Properties of the classifier and of the reply selection\<close>

text \<open>
  C1. For every input string, \<open>detect_emotion\<close> tries the keyword lists in the order
  happy, sad, anxious, angry, crisis on the lowercased text, by substring containment;
  the first list with an occurring keyword decides the label, and when no keyword of any
  list occurs the label is neutral. In particular a text in which both "happy" and "sad"
  occur is labelled happy.
\<close>

theorem detect_emotion_priority:
  "detect_emotion (Some s) =
     (if \<exists>w\<in>set happy_words. sublist w (lower s) then ''happy''
      else if \<exists>w\<in>set sad_words. sublist w (lower s) then ''sad''
      else if \<exists>w\<in>set anxious_words. sublist w (lower s) then ''anxious''
      else if \<exists>w\<in>set angry_words. sublist w (lower s) then ''angry''
      else if \<exists>w\<in>set hopeless_words. sublist w (lower s) then ''crisis''
      else ''neutral'')
   \<and> (sublist ''happy'' (lower s) \<and> sublist ''sad'' (lower s)
        \<longrightarrow> detect_emotion (Some s) = ''happy'')"
proof -
  have "''happy'' \<in> set happy_words"
    by (simp add: happy_words_def)
  then have "sublist ''happy'' (lower s) \<Longrightarrow> \<exists>w\<in>set happy_words. sublist w (lower s)"
    by blast
  then show ?thesis
    by (simp add: detect_emotion_cascade)
qed

theorem detect_emotion_priority_witness:
  "sublist ''happy'' (lower ''Happy yesterday, SAD today'')
   \<and> sublist ''sad'' (lower ''Happy yesterday, SAD today'')
   \<and> detect_emotion (Some ''Happy yesterday, SAD today'') = ''happy''"
proof -
  have h: "sublist ''happy'' (lower ''Happy yesterday, SAD today'')"
    by code_simp
  have s: "sublist ''sad'' (lower ''Happy yesterday, SAD today'')"
    by code_simp
  from h s detect_emotion_priority [of "''Happy yesterday, SAD today''"]
  show ?thesis by blast
qed

text \<open>
  C2. The reply selection builds an alert if and only if the label is crisis and none of
  the override phrases "help", "assist", "support", "not okay", "hurt", "pain", "alone",
  "lonely" occurs in the message, occurrence being tested on the lowercased message as
  the handler does. An alert that is built has risk "High" and the original message, not
  lowercased, and comes with the safety-concern reply; the handler then appends exactly
  this one alert to the alert table.
\<close>

theorem respond_alert_iff:
  "((\<exists>a. snd (respond u ts m e) = Some a) \<longleftrightarrow>
      e = ''crisis'' \<and>
      (\<forall>p\<in>{''help'', ''assist'', ''support'', ''not okay'', ''hurt'', ''pain'',
             ''alone'', ''lonely''}. \<not> sublist p (lower m)))
   \<and> (\<forall>a. snd (respond u ts m e) = Some a \<longrightarrow>
         a = \<lparr>alert_user_id = u, risk = ''High'', message = m, alert_time = ts\<rparr>
         \<and> fst (respond u ts m e) = reply_crisis)
   \<and> (strip raw = m \<and> m \<noteq> [] \<and> e = detect_emotion (Some m)
        \<and> snd (respond u ts m e) \<noteq> None \<longrightarrow>
         alerts (chat_post u ts ts2 raw d) =
           alerts d @ [\<lparr>alert_user_id = u, risk = ''High'', message = m, alert_time = ts\<rparr>])"
  by (auto simp: respond_cascade chat_post_alerts)

theorem respond_alert_iff_witness:
  "snd (respond 7 ''2024-05-01 10:00:00'' ''I want to give up'' ''crisis'') =
     Some \<lparr>alert_user_id = 7, risk = ''High'', message = ''I want to give up'',
            alert_time = ''2024-05-01 10:00:00''\<rparr>
   \<and> fst (respond 7 ''2024-05-01 10:00:00'' ''I want to give up'' ''crisis'') = reply_crisis
   \<and> snd (respond 7 ''2024-05-01 10:00:00'' ''I want to give up'' ''sad'') = None
   \<and> snd (respond 7 ''2024-05-01 10:00:00'' ''Help, I want to give up'' ''crisis'') = None
   \<and> alerts (chat_post 7 ''2024-05-01 10:00:00'' ''2024-05-01 10:00:01''
        ''  I want to give up '' \<lparr>chats = [], alerts = []\<rparr>) =
       [\<lparr>alert_user_id = 7, risk = ''High'', message = ''I want to give up'',
          alert_time = ''2024-05-01 10:00:00''\<rparr>]"
proof -
  have clear: "\<forall>p\<in>{''help'', ''assist'', ''support'', ''not okay'', ''hurt'', ''pain'',
                    ''alone'', ''lonely''}. \<not> sublist p (lower ''I want to give up'')"
    by code_simp
  have hit: "sublist ''help'' (lower ''Help, I want to give up'')"
    by code_simp
  have ne: "''sad'' \<noteq> ''crisis''"
    by simp
  note a = respond_alert_iff [of 7 "''2024-05-01 10:00:00''" "''I want to give up''" "''crisis''"]
  note b = respond_alert_iff [of 7 "''2024-05-01 10:00:00''" "''I want to give up''" "''sad''"]
  note c = respond_alert_iff [of 7 "''2024-05-01 10:00:00''" "''Help, I want to give up''"
      "''crisis''"]
  from a clear have 1: "\<exists>x. snd (respond 7 ''2024-05-01 10:00:00'' ''I want to give up'' ''crisis'') = Some x"
    by blast
  with a have 2: "snd (respond 7 ''2024-05-01 10:00:00'' ''I want to give up'' ''crisis'') =
     Some \<lparr>alert_user_id = 7, risk = ''High'', message = ''I want to give up'',
            alert_time = ''2024-05-01 10:00:00''\<rparr>
   \<and> fst (respond 7 ''2024-05-01 10:00:00'' ''I want to give up'' ''crisis'') = reply_crisis"
    by blast
  from b ne have 3: "snd (respond 7 ''2024-05-01 10:00:00'' ''I want to give up'' ''sad'') = None"
    by (metis option.exhaust)
  from c hit have 4: "snd (respond 7 ''2024-05-01 10:00:00'' ''Help, I want to give up'' ''crisis'') = None"
    by (metis insertI1 option.exhaust)
  have st: "strip ''  I want to give up '' = ''I want to give up''"
    by code_simp
  have l: "''crisis'' = detect_emotion (Some ''I want to give up'')"
    by code_simp
  have ne: "''I want to give up'' \<noteq> []"
    by simp
  from 1 have sm: "snd (respond 7 ''2024-05-01 10:00:00'' ''I want to give up'' ''crisis'') \<noteq> None"
    by auto
  from st ne l sm
    respond_alert_iff [of 7 "''2024-05-01 10:00:00''" "''I want to give up''" "''crisis''"
      "''  I want to give up ''" "''2024-05-01 10:00:01''" "\<lparr>chats = [], alerts = []\<rparr>"]
  have 5: "alerts (chat_post 7 ''2024-05-01 10:00:00'' ''2024-05-01 10:00:01''
        ''  I want to give up '' \<lparr>chats = [], alerts = []\<rparr>) =
       [\<lparr>alert_user_id = 7, risk = ''High'', message = ''I want to give up'',
          alert_time = ''2024-05-01 10:00:00''\<rparr>]"
    by simp
  from 2 3 4 5 show ?thesis
    by simp
qed

text \<open>
  C3. A message in which a crisis keyword and a keyword of one of the four lists tried
  earlier both occur, and no override phrase occurs, gets the label of the earliest such
  list and not crisis; the reply is the canned reply of that label and no alert is
  saved. The message "I am sad and want to kill myself" is labelled sad and answered with
  the sad reply, without an alert.
\<close>

theorem crisis_shadowed:
  "(\<exists>w\<in>set hopeless_words. sublist w (lower s)) \<Longrightarrow>
   (\<exists>w\<in>set (happy_words @ sad_words @ anxious_words @ angry_words). sublist w (lower s)) \<Longrightarrow>
   (\<forall>p\<in>{''help'', ''assist'', ''support'', ''not okay'', ''hurt'', ''pain'',
          ''alone'', ''lonely''}. \<not> sublist p (lower s)) \<Longrightarrow>
   detect_emotion (Some s) =
     (if \<exists>w\<in>set happy_words. sublist w (lower s) then ''happy''
      else if \<exists>w\<in>set sad_words. sublist w (lower s) then ''sad''
      else if \<exists>w\<in>set anxious_words. sublist w (lower s) then ''anxious''
      else ''angry'')
   \<and> detect_emotion (Some s) \<noteq> ''crisis''
   \<and> respond u ts s (detect_emotion (Some s)) =
       (responses_get (detect_emotion (Some s)) reply_default, None)
   \<and> (strip raw = s \<longrightarrow> alerts (chat_post u ts ts2 raw d) = alerts d)"
proof -
  assume crisis: "\<exists>w\<in>set hopeless_words. sublist w (lower s)"
    and higher: "\<exists>w\<in>set (happy_words @ sad_words @ anxious_words @ angry_words).
                   sublist w (lower s)"
    and clear: "\<forall>p\<in>{''help'', ''assist'', ''support'', ''not okay'', ''hurt'', ''pain'',
                    ''alone'', ''lonely''}. \<not> sublist p (lower s)"
  from higher have label: "detect_emotion (Some s) =
     (if \<exists>w\<in>set happy_words. sublist w (lower s) then ''happy''
      else if \<exists>w\<in>set sad_words. sublist w (lower s) then ''sad''
      else if \<exists>w\<in>set anxious_words. sublist w (lower s) then ''anxious''
      else ''angry'')"
    by (auto simp: detect_emotion_cascade)
  then have nc: "detect_emotion (Some s) \<noteq> ''crisis''"
    by simp
  from clear nc have r: "respond u ts s (detect_emotion (Some s)) =
       (responses_get (detect_emotion (Some s)) reply_default, None)"
    by (simp add: respond_cascade)
  then have "strip raw = s \<longrightarrow> alerts (chat_post u ts ts2 raw d) = alerts d"
    by (auto simp: chat_post_alerts)
  with label nc r show ?thesis
    by blast
qed

theorem crisis_shadowed_witness:
  "detect_emotion (Some ''I am sad and want to kill myself'') = ''sad''
   \<and> respond 3 ''2024-05-01 10:00:00'' ''I am sad and want to kill myself''
        (detect_emotion (Some ''I am sad and want to kill myself'')) =
       (0x1F622 # cps '' I'm sorry you're feeling low. Want to talk about it?'', None)
   \<and> alerts (chat_post 3 ''2024-05-01 10:00:00'' ''2024-05-01 10:00:01''
        ''I am sad and want to kill myself'' \<lparr>chats = [], alerts = []\<rparr>) = []"
proof -
  have crisis: "\<exists>w\<in>set hopeless_words. sublist w (lower ''I am sad and want to kill myself'')"
    by code_simp
  have higher: "\<exists>w\<in>set (happy_words @ sad_words @ anxious_words @ angry_words).
                   sublist w (lower ''I am sad and want to kill myself'')"
    by code_simp
  have clear: "\<forall>p\<in>{''help'', ''assist'', ''support'', ''not okay'', ''hurt'', ''pain'',
                    ''alone'', ''lonely''}. \<not> sublist p (lower ''I am sad and want to kill myself'')"
    by code_simp
  have nh: "\<not> (\<exists>w\<in>set happy_words. sublist w (lower ''I am sad and want to kill myself''))"
    by code_simp
  have sd: "\<exists>w\<in>set sad_words. sublist w (lower ''I am sad and want to kill myself'')"
    by code_simp
  have st: "strip ''I am sad and want to kill myself'' = ''I am sad and want to kill myself''"
    by code_simp
  have rs: "responses_get ''sad'' reply_default =
      0x1F622 # cps '' I'm sorry you're feeling low. Want to talk about it?''"
    by (simp add: responses_get_def responses_def)
  note t = crisis_shadowed [OF crisis higher clear, of 3 "''2024-05-01 10:00:00''"
      "''I am sad and want to kill myself''" "''2024-05-01 10:00:01''" "\<lparr>chats = [], alerts = []\<rparr>"]
  from t nh sd have l: "detect_emotion (Some ''I am sad and want to kill myself'') = ''sad''"
    by simp
  from t l rs st show ?thesis
    by simp
qed

text \<open>
  C4. When "help", "assist" or "support" occurs in the message, as typed or after
  lowercasing, the reply is the offer to help and no alert is built, whatever the label
  is, crisis included; the handler leaves the alert table as it was.
\<close>

theorem help_override:
  "p \<in> {''help'', ''assist'', ''support''} \<Longrightarrow> sublist p m \<or> sublist p (lower m) \<Longrightarrow>
   respond u ts m e = (reply_help, None)
   \<and> respond u ts m ''crisis'' = (reply_help, None)
   \<and> (strip raw = m \<longrightarrow> alerts (chat_post u ts ts2 raw d) = alerts d)"
proof -
  assume p: "p \<in> {''help'', ''assist'', ''support''}"
    and occ: "sublist p m \<or> sublist p (lower m)"
  from p have "lower p = p"
    by (auto simp: lower_def lower_char_def)
  with occ sublist_lower [of p m] have "sublist p (lower m)"
    by auto
  with p have r: "respond u ts m l = (reply_help, None)" for l
    by (auto simp: respond_cascade)
  then have "strip raw = m \<longrightarrow> alerts (chat_post u ts ts2 raw d) = alerts d"
    by (auto simp: chat_post_alerts)
  with r show ?thesis
    by blast
qed

theorem help_override_witness:
  "detect_emotion (Some ''Please HELP, I want to die'') = ''crisis''
   \<and> respond 5 ''2024-05-01 10:00:00'' ''Please HELP, I want to die''
        (detect_emotion (Some ''Please HELP, I want to die'')) = (reply_help, None)
   \<and> respond 5 ''2024-05-01 10:00:00'' ''we support you'' ''happy'' = (reply_help, None)"
proof -
  have l: "detect_emotion (Some ''Please HELP, I want to die'') = ''crisis''"
    by code_simp
  have p: "''help'' \<in> {''help'', ''assist'', ''support''}"
    by simp
  have occ: "sublist ''help'' ''Please HELP, I want to die''
             \<or> sublist ''help'' (lower ''Please HELP, I want to die'')"
    by code_simp
  have p2: "''support'' \<in> {''help'', ''assist'', ''support''}"
    by simp
  have occ2: "sublist ''support'' ''we support you'' \<or> sublist ''support'' (lower ''we support you'')"
    by code_simp
  from help_override [OF p occ] help_override [OF p2 occ2] l show ?thesis
    by simp
qed

text \<open>
  C5. \<open>detect_emotion\<close> has no error path: the empty string is labelled neutral, an
  absent text (\<open>None\<close>) is treated as the empty string and labelled neutral too, and
  every input gets one of the six labels.
\<close>

theorem detect_emotion_total:
  "detect_emotion (Some []) = ''neutral''
   \<and> detect_emotion None = ''neutral''
   \<and> detect_emotion None = detect_emotion (Some [])
   \<and> detect_emotion x \<in> {''happy'', ''sad'', ''anxious'', ''angry'', ''crisis'', ''neutral''}"
proof -
  have e: "detect_emotion (Some []) = ''neutral''"
    by code_simp
  have n: "detect_emotion None = ''neutral''"
    by code_simp
  from e n detect_emotion_label [of x] show ?thesis
    by simp
qed

text \<open>
  C6. The message "I feel hopeless and want to die" is labelled crisis; with that label
  the reply is the safety-concern reply and one alert is built, with risk "High" and the
  message itself, and the handler appends exactly that alert.
\<close>

theorem hopeless_example:
  "detect_emotion (Some ''I feel hopeless and want to die'') = ''crisis''
   \<and> respond u ts ''I feel hopeless and want to die'' ''crisis'' =
       (reply_crisis,
        Some \<lparr>alert_user_id = u, risk = ''High'',
               message = ''I feel hopeless and want to die'', alert_time = ts\<rparr>)
   \<and> alerts (chat_post u ts ts2 ''I feel hopeless and want to die'' d) =
       alerts d @ [\<lparr>alert_user_id = u, risk = ''High'',
                     message = ''I feel hopeless and want to die'', alert_time = ts\<rparr>]"
proof -
  have l: "detect_emotion (Some ''I feel hopeless and want to die'') = ''crisis''"
    by code_simp
  have clear:
    "\<not> sublist ''help'' (lower ''I feel hopeless and want to die'')"
    "\<not> sublist ''assist'' (lower ''I feel hopeless and want to die'')"
    "\<not> sublist ''support'' (lower ''I feel hopeless and want to die'')"
    "\<not> sublist ''not okay'' (lower ''I feel hopeless and want to die'')"
    "\<not> sublist ''hurt'' (lower ''I feel hopeless and want to die'')"
    "\<not> sublist ''pain'' (lower ''I feel hopeless and want to die'')"
    "\<not> sublist ''alone'' (lower ''I feel hopeless and want to die'')"
    "\<not> sublist ''lonely'' (lower ''I feel hopeless and want to die'')"
    by code_simp+
  have st: "strip ''I feel hopeless and want to die'' = ''I feel hopeless and want to die''"
    by code_simp
  have r: "respond u ts ''I feel hopeless and want to die'' ''crisis'' =
       (reply_crisis,
        Some \<lparr>alert_user_id = u, risk = ''High'',
               message = ''I feel hopeless and want to die'', alert_time = ts\<rparr>)"
    by (simp add: respond_cascade clear)
  from l r st show ?thesis
    by (simp add: chat_post_alerts)
qed

text \<open>
  C7. The message "I'm hurt" is labelled sad through the keyword "hurt", but the reply
  selection takes its second override branch, since "hurt" occurs: the reply is the
  empathetic one, which differs from the canned sad reply, and no alert is saved.
\<close>

theorem hurt_example:
  "detect_emotion (Some ''I'm hurt'') = ''sad''
   \<and> respond u ts ''I'm hurt'' ''sad'' = (reply_not_okay, None)
   \<and> reply_not_okay \<noteq> responses_get ''sad'' reply_default
   \<and> alerts (chat_post u ts ts2 ''I'm hurt'' d) = alerts d"
proof -
  have l: "detect_emotion (Some ''I'm hurt'') = ''sad''"
    by code_simp
  have nh: "\<not> sublist ''help'' (lower ''I'm hurt'')" "\<not> sublist ''assist'' (lower ''I'm hurt'')"
    "\<not> sublist ''support'' (lower ''I'm hurt'')"
    by code_simp+
  have h: "sublist ''hurt'' (lower ''I'm hurt'')"
    by code_simp
  have st: "strip ''I'm hurt'' = ''I'm hurt''"
    by code_simp
  have ne: "reply_not_okay \<noteq> responses_get ''sad'' reply_default"
    by (simp add: reply_not_okay_def responses_get_def responses_def)
  from nh h have r: "respond u ts ''I'm hurt'' l = (reply_not_okay, None)" for l
    by (simp add: respond_cascade)
  from l r st ne show ?thesis
    by (simp add: chat_post_alerts)
qed

text \<open>
  C8. \<open>detect_emotion\<close> lowercases its input before matching, so a text and its
  lowercased form get the same label; "HAPPY" is labelled as "happy" is.
\<close>

theorem detect_emotion_lower:
  "detect_emotion (Some (lower s)) = detect_emotion (Some s)
   \<and> detect_emotion (map_option lower x) = detect_emotion x
   \<and> detect_emotion (Some ''HAPPY'') = detect_emotion (Some ''happy'')"
proof -
  have a: "detect_emotion (Some (lower t)) = detect_emotion (Some t)" for t
    by (simp add: detect_emotion_def lower_idem)
  have b: "detect_emotion (map_option lower x) = detect_emotion x"
    by (cases x) (simp_all add: a)
  have "lower ''HAPPY'' = ''happy''"
    by code_simp
  with a [of "''HAPPY''"] have c: "detect_emotion (Some ''HAPPY'') = detect_emotion (Some ''happy'')"
    by simp
  from a b c show ?thesis
    by blast
qed



text \<open>
  C10. The override phrases are matched on the lowercased message, so a message and its
  lowercased form get the same reply and the same decision to alert (the two alerts
  differ only in the message they carry); "HELP ME" gets the offer to help.
\<close>

theorem respond_lower:
  "fst (respond u ts (lower m) e) = fst (respond u ts m e)
   \<and> (snd (respond u ts (lower m) e) = None \<longleftrightarrow> snd (respond u ts m e) = None)
   \<and> snd (respond u ts (lower m) e) =
       map_option (\<lambda>a. a\<lparr>message := lower m\<rparr>) (snd (respond u ts m e))
   \<and> respond u ts ''HELP ME'' e = (reply_help, None)"
proof -
  have a: "fst (respond u ts (lower m) e) = fst (respond u ts m e)"
    by (simp add: respond_def Let_def lower_idem)
  have b: "snd (respond u ts (lower m) e) =
       map_option (\<lambda>a. a\<lparr>message := lower m\<rparr>) (snd (respond u ts m e))"
    by (simp add: respond_def Let_def lower_idem)
  have "sublist ''help'' (lower ''HELP ME'')"
    by code_simp
  then have c: "respond u ts ''HELP ME'' e = (reply_help, None)"
    by (simp add: respond_cascade)
  from a b c show ?thesis
    by simp
qed

end
